theory Spec2Isabelle
  imports Main
begin

section \<open>Strings\<close>

text \<open>
  JavaScript strings are modelled as \<^typ>\<open>string\<close>. The regular expressions and the case
  conversions of the generator are written out for ASCII text: \<open>\w\<close> is
  \<open>[A-Za-z0-9_]\<close>, \<open>\s\<close> is space, tab, line feed, vertical tab, form feed and carriage
  return, and \<open>toUpperCase\<close>/\<open>toLowerCase\<close> act on the 26 letters only.
\<close>

definition upperChars :: string where
  "upperChars = ''ABCDEFGHIJKLMNOPQRSTUVWXYZ''"

definition lowerChars :: string where
  "lowerChars = ''abcdefghijklmnopqrstuvwxyz''"

definition digitChars :: string where
  "digitChars = ''0123456789''"

definition isUpper :: "char \<Rightarrow> bool" where
  "isUpper c = (c \<in> set upperChars)"

definition isLower :: "char \<Rightarrow> bool" where
  "isLower c = (c \<in> set lowerChars)"

text \<open>The class \<open>\w\<close>, which is also \<open>[a-zA-Z0-9_]\<close>.\<close>

definition isWordChar :: "char \<Rightarrow> bool" where
  "isWordChar c = (c \<in> set (upperChars @ lowerChars @ digitChars @ ''_''))"

text \<open>The class \<open>\s\<close>.\<close>

definition isSpace :: "char \<Rightarrow> bool" where
  "isSpace c = (c \<in> set [CHR '' '', CHR 0x09, CHR 0x0A, CHR 0x0B, CHR 0x0C, CHR 0x0D])"

definition toUpperChar :: "char \<Rightarrow> char" where
  "toUpperChar c = (case map_of (zip lowerChars upperChars) c of Some u \<Rightarrow> u | None \<Rightarrow> c)"

definition toLowerChar :: "char \<Rightarrow> char" where
  "toLowerChar c = (case map_of (zip upperChars lowerChars) c of Some l \<Rightarrow> l | None \<Rightarrow> c)"

definition toUpperCase :: "string \<Rightarrow> string" where
  "toUpperCase s = map toUpperChar s"

definition toLowerCase :: "string \<Rightarrow> string" where
  "toLowerCase s = map toLowerChar s"

text \<open>\<open>str.split(/[-_\s]/)\<close>: one piece more than there are delimiters, empty pieces kept.\<close>

definition isDelimiter :: "char \<Rightarrow> bool" where
  "isDelimiter c = (c = CHR ''-'' \<or> c = CHR ''_'' \<or> isSpace c)"

fun splitOn :: "(char \<Rightarrow> bool) \<Rightarrow> string \<Rightarrow> string list" where
  "splitOn p [] = [[]]"
| "splitOn p (c # cs) =
     (if p c then [] # splitOn p cs
      else (case splitOn p cs of [] \<Rightarrow> [[c]] | w # ws \<Rightarrow> (c # w) # ws))"

text \<open>\<open>word.charAt(0).toUpperCase() + word.slice(1)\<close>\<close>

fun capitalizeWord :: "string \<Rightarrow> string" where
  "capitalizeWord [] = []"
| "capitalizeWord (c # cs) = toUpperChar c # cs"

text \<open>\<open>word.charAt(0).toUpperCase() + word.slice(1).toLowerCase()\<close>\<close>

fun capitalizeLowerWord :: "string \<Rightarrow> string" where
  "capitalizeLowerWord [] = []"
| "capitalizeLowerWord (c # cs) = toUpperChar c # toLowerCase cs"

text \<open>\<open>/^[A-Z]/.test(word)\<close>\<close>

fun startsUpper :: "string \<Rightarrow> bool" where
  "startsUpper [] = False"
| "startsUpper (c # cs) = isUpper c"

definition toPascalCase :: "string \<Rightarrow> string" where
  "toPascalCase str =
     (let containsUppercase = (\<exists>c \<in> set str. isUpper c) in
      if containsUppercase
      then concat (map (\<lambda>word. if startsUpper word then word else capitalizeWord word)
                       (splitOn isDelimiter str))
      else concat (map capitalizeLowerWord (splitOn isDelimiter str)))"

fun lowerFirst :: "string \<Rightarrow> string" where
  "lowerFirst [] = []"
| "lowerFirst (c # cs) = toLowerChar c # cs"

definition toCamelCase :: "string \<Rightarrow> string" where
  "toCamelCase str = lowerFirst (toPascalCase str)"

text \<open>\<open>/DTO$/.test(name)\<close>\<close>

definition endsWithDTO :: "string \<Rightarrow> bool" where
  "endsWithDTO nm = (take 3 (rev nm) = ''OTD'')"

text \<open>
  \<open>/[A-Z][a-z]+[A-Z]/.test(name)\<close>: somewhere an upper-case letter, then a run of at least
  one lower-case letter, then an upper-case letter. After the first letter the run is the
  longest one, since the letter that ends it must not be lower-case.
\<close>

fun camelHump :: "string \<Rightarrow> bool" where
  "camelHump [] = False"
| "camelHump (c # cs) =
     ((isUpper c \<and> takeWhile isLower cs \<noteq> [] \<and> startsUpper (dropWhile isLower cs))
      \<or> camelHump cs)"

definition sanitizeTypeName :: "string \<Rightarrow> string" where
  "sanitizeTypeName nm =
     (if endsWithDTO nm \<or> camelHump nm then filter isWordChar nm
      else if startsUpper nm then filter isWordChar nm
      else toPascalCase (filter (\<lambda>c. isWordChar c \<or> isSpace c) nm))"

text \<open>\<open>typeName.endsWith('[]')\<close> and \<open>typeName.slice(0, -2)\<close>\<close>

definition endsWithBrackets :: "string \<Rightarrow> bool" where
  "endsWithBrackets t = (take 2 (rev t) = '']['')"

definition basicTypes :: "string list" where
  "basicTypes = [''string'', ''number'', ''boolean'', ''any'', ''Date'', ''void'', ''null'',
                 ''undefined'', ''Blob'']"

function isBasicType :: "string \<Rightarrow> bool" where
  "isBasicType typeName =
     (if endsWithBrackets typeName then isBasicType (take (length typeName - 2) typeName)
      else typeName \<in> set basicTypes)"
  by pat_completeness auto
termination
proof (relation "measure length")
  fix typeName :: string
  assume "endsWithBrackets typeName"
  then have "typeName \<noteq> []"
    by (auto simp: endsWithBrackets_def)
  then show "(take (length typeName - 2) typeName, typeName) \<in> measure length"
    by (cases typeName) auto
qed simp

declare isBasicType.simps [simp del]

text \<open>
  \<open>toTsType(type?, format?)\<close>. Both parameters are optional; \<open>!type\<close> holds for an absent
  type and for the empty string.
\<close>

definition toTsType :: "string option \<Rightarrow> string option \<Rightarrow> string" where
  "toTsType type format =
     (case type of
        None \<Rightarrow> ''any''
      | Some t \<Rightarrow>
          if t = [] then ''any''
          else let l = toLowerCase t in
            if l = ''integer'' \<or> l = ''number''
              then (if format = Some ''int64'' then ''bigint'' else ''number'')
            else if l = ''string''
              then (if format = Some ''date'' \<or> format = Some ''date-time'' then ''Date''
                    else if format = Some ''binary'' then ''Blob''
                    else ''string'')
            else if l = ''boolean'' then ''boolean''
            else if l = ''array'' then ''any[]''
            else ''Record<string, any>'')"

section \<open>The intermediate representation\<close>

text \<open>
  A member of a schema's \<open>enum\<close> array. Numbers are the integers that JavaScript prints in
  plain decimal notation.
\<close>

datatype jsval = JStr string | JNum int | JBool bool | JNull

text \<open>
  \<open>ApiSchema\<close>. The optional fields \<open>format\<close> and \<open>enum\<close> and the nullable fields are
  options; \<open>properties\<close> is the record's entries in the order \<open>Object.entries\<close> lists them.
\<close>

datatype ApiSchema = ApiSchema
  (name: string)
  (type: string)
  (format: "string option")
  (enum': "jsval list option")
  (nullable: bool)
  (properties: "(string \<times> ApiSchema) list")
  (required: "string list")
  (items: "ApiSchema option")
  (allOf: "ApiSchema list option")
  (oneOf: "ApiSchema list option")
  (anyOf: "ApiSchema list option")
  (reference: "string option")

record TypeDefinition =
  name :: string
  content :: string
  dependencies :: "string list"

record TypeDefinitions =
  interfaces :: "TypeDefinition list"
  types :: "TypeDefinition list"
  enums :: "TypeDefinition list"
  apiClasses :: "TypeDefinition list"

definition emptyTypeDefinitions :: TypeDefinitions where
  "emptyTypeDefinitions = \<lparr>interfaces = [], types = [], enums = [], apiClasses = []\<rparr>"

section \<open>The schema resolver\<close>

text \<open>A string or null used as a condition: null and the empty string are falsy.\<close>

fun truthy :: "string option \<Rightarrow> string option" where
  "truthy None = None"
| "truthy (Some s) = (if s = [] then None else Some s)"

text \<open>The loop of \<open>findExistingType\<close> over one spread of declarations.\<close>

fun findExistingTypeIn :: "string \<Rightarrow> TypeDefinition list \<Rightarrow> string option" where
  "findExistingTypeIn nm [] = None"
| "findExistingTypeIn nm (definition # rest) =
     (if TypeDefinition.name definition = nm then Some (TypeDefinition.name definition)
      else findExistingTypeIn nm rest)"

definition findExistingType :: "string \<Rightarrow> TypeDefinitions \<Rightarrow> string option" where
  "findExistingType nm typeDefinitions =
     findExistingTypeIn nm (interfaces typeDefinitions @ types typeDefinitions @ enums typeDefinitions)"


subsection \<open>Rendering values\<close>

definition newline :: string where
  "newline = [CHR 0x0A]"

text \<open>\<open>Array.prototype.join\<close> on an array of strings.\<close>

fun join :: "string \<Rightarrow> string list \<Rightarrow> string" where
  "join sep [] = []"
| "join sep [x] = x"
| "join sep (x # y # ys) = x @ sep @ join sep (y # ys)"

function showNat :: "nat \<Rightarrow> string" where
  "showNat n = (if n < 10 then [digitChars ! n] else showNat (n div 10) @ [digitChars ! (n mod 10)])"
  by pat_completeness auto
termination
  by (relation "measure id") auto

declare showNat.simps [simp del]

definition showInt :: "int \<Rightarrow> string" where
  "showInt i = (if i < 0 then ''-'' @ showNat (nat (- i)) else showNat (nat i))"

text \<open>\<open>String(value)\<close>, which is also what a template literal inserts.\<close>

fun jsString :: "jsval \<Rightarrow> string" where
  "jsString (JStr s) = s"
| "jsString (JNum i) = showInt i"
| "jsString (JBool b) = (if b then ''true'' else ''false'')"
| "jsString JNull = ''null''"

definition hexDigits :: string where
  "hexDigits = ''0123456789abcdef''"

text \<open>The escapes of \<open>JSON.stringify\<close> inside a string.\<close>

definition jsonEscapeChar :: "char \<Rightarrow> string" where
  "jsonEscapeChar c =
     (if c = CHR 0x22 then [CHR 0x5C, CHR 0x22]
      else if c = CHR 0x5C then [CHR 0x5C, CHR 0x5C]
      else if c = CHR 0x08 then [CHR 0x5C, CHR ''b'']
      else if c = CHR 0x09 then [CHR 0x5C, CHR ''t'']
      else if c = CHR 0x0A then [CHR 0x5C, CHR ''n'']
      else if c = CHR 0x0C then [CHR 0x5C, CHR ''f'']
      else if c = CHR 0x0D then [CHR 0x5C, CHR ''r'']
      else if (of_char c :: nat) < 32
        then [CHR 0x5C, CHR ''u'', CHR ''0'', CHR ''0'',
              hexDigits ! ((of_char c :: nat) div 16), hexDigits ! ((of_char c :: nat) mod 16)]
      else [c])"

fun jsonStringify :: "jsval \<Rightarrow> string" where
  "jsonStringify (JStr s) = [CHR 0x22] @ concat (map jsonEscapeChar s) @ [CHR 0x22]"
| "jsonStringify (JNum i) = showInt i"
| "jsonStringify (JBool b) = (if b then ''true'' else ''false'')"
| "jsonStringify JNull = ''null''"

text \<open>\<open>typeof value === 'string'\<close>\<close>

fun isString :: "jsval \<Rightarrow> bool" where
  "isString (JStr s) = True"
| "isString v = False"

subsection \<open>Enumerations\<close>

text \<open>\<open>String(value).replace(/[^a-zA-Z0-9_]/g, '_')\<close>\<close>

definition enumKey :: "string \<Rightarrow> string" where
  "enumKey v = map (\<lambda>c. if isWordChar c then c else CHR ''_'') v"

text \<open>One round of the \<open>forEach\<close> that appends a member to \<open>enumContent\<close>.\<close>

definition enumMember :: "string \<Rightarrow> jsval \<Rightarrow> string" where
  "enumMember enumContent v =
     enumContent @ ''  '' @ enumKey (jsString v) @ '' = \"'' @ jsString v @ ''\",'' @ newline"

definition processEnumSchema :: "ApiSchema \<Rightarrow> TypeDefinitions \<Rightarrow> string \<times> TypeDefinitions" where
  "processEnumSchema schema typeDefinitions =
     (let nm = sanitizeTypeName (ApiSchema.name schema);
          enumValues = (case enum' schema of None \<Rightarrow> [] | Some vs \<Rightarrow> vs);
          isStringEnum = list_all isString enumValues;
          enumContent =
            (if isStringEnum
             then foldl enumMember (''export enum '' @ nm @ '' {'' @ newline) enumValues @ ''}''
             else ''export type '' @ nm @ '' = '' @ join '' | '' (map jsonStringify enumValues) @ '';'')
      in (nm, typeDefinitions\<lparr>enums := enums typeDefinitions @
            [\<lparr>TypeDefinition.name = nm, content = enumContent, dependencies = []\<rparr>]\<rparr>))"

subsection \<open>Objects, arrays and compositions\<close>

text \<open>\<open>schema.x && schema.x.length > 0\<close> for a nullable array\<close>

fun nonEmpty :: "'a list option \<Rightarrow> bool" where
  "nonEmpty None = False"
| "nonEmpty (Some xs) = (xs \<noteq> [])"

lemma size_items:
  "items schema = Some item \<Longrightarrow> size item < size schema"
  by (cases schema) simp

lemma size_properties:
  "size_list (size_prod (\<lambda>x. 0) size) (properties schema) < size schema"
  by (cases schema) simp

lemma size_allOf:
  "allOf schema = Some components \<Longrightarrow> size_list size components < size schema"
  by (cases schema) simp

lemma size_oneOf:
  "oneOf schema = Some components \<Longrightarrow> size_list size components < size schema"
  by (cases schema) simp

lemma size_anyOf:
  "anyOf schema = Some components \<Longrightarrow> size_list size components < size schema"
  by (cases schema) simp

text \<open>
  The accumulator is passed in and returned. \<open>processProperties\<close> is the loop of
  \<open>processObjectSchema\<close> over the entries of \<open>schema.properties\<close>, carrying
  \<open>interfaceContent\<close> and \<open>dependencies\<close>; \<open>processComponents\<close> is the \<open>map\<close> over the
  members of a composition, carrying the types mapped so far and \<open>dependencies\<close>.
\<close>

function processSchema :: "ApiSchema \<Rightarrow> TypeDefinitions \<Rightarrow> string \<times> TypeDefinitions"
  and processObjectSchema :: "ApiSchema \<Rightarrow> TypeDefinitions \<Rightarrow> string \<times> TypeDefinitions"
  and processProperties ::
    "(string \<times> ApiSchema) list \<Rightarrow> string list \<Rightarrow> string \<Rightarrow> string list \<Rightarrow> TypeDefinitions
      \<Rightarrow> string \<times> string list \<times> TypeDefinitions"
  and processArraySchema :: "ApiSchema \<Rightarrow> TypeDefinitions \<Rightarrow> string \<times> TypeDefinitions"
  and processAllOfSchema :: "ApiSchema \<Rightarrow> TypeDefinitions \<Rightarrow> string \<times> TypeDefinitions"
  and processOneOfSchema :: "ApiSchema \<Rightarrow> TypeDefinitions \<Rightarrow> string \<times> TypeDefinitions"
  and processAnyOfSchema :: "ApiSchema \<Rightarrow> TypeDefinitions \<Rightarrow> string \<times> TypeDefinitions"
  and processComponents ::
    "ApiSchema list \<Rightarrow> string list \<Rightarrow> string list \<Rightarrow> TypeDefinitions
      \<Rightarrow> string list \<times> string list \<times> TypeDefinitions"
where
  "processSchema schema typeDefinitions =
     (case truthy (reference schema) of
        Some r \<Rightarrow> (r, typeDefinitions)
      | None \<Rightarrow>
          (case truthy (findExistingType (ApiSchema.name schema) typeDefinitions) of
             Some existingType \<Rightarrow> (existingType, typeDefinitions)
           | None \<Rightarrow>
               if nonEmpty (enum' schema) then processEnumSchema schema typeDefinitions
               else if type schema = ''object'' \<or> properties schema \<noteq> []
                 then processObjectSchema schema typeDefinitions
               else if type schema = ''array'' \<and> items schema \<noteq> None
                 then processArraySchema schema typeDefinitions
               else if nonEmpty (allOf schema) then processAllOfSchema schema typeDefinitions
               else if nonEmpty (oneOf schema) then processOneOfSchema schema typeDefinitions
               else if nonEmpty (anyOf schema) then processAnyOfSchema schema typeDefinitions
               else (toTsType (Some (type schema)) (format schema), typeDefinitions)))"
| "processObjectSchema schema typeDefinitions =
     (let nm = sanitizeTypeName (ApiSchema.name schema) in
      case processProperties (properties schema) (ApiSchema.required schema)
             (''export interface '' @ nm @ '' {'' @ newline) [] typeDefinitions of
        (interfaceContent, deps, typeDefinitions') \<Rightarrow>
          (nm, typeDefinitions'\<lparr>interfaces := interfaces typeDefinitions' @
                 [\<lparr>TypeDefinition.name = nm, content = interfaceContent @ ''}'',
                   dependencies = deps\<rparr>]\<rparr>))"
| "processProperties [] req interfaceContent deps typeDefinitions =
     (interfaceContent, deps, typeDefinitions)"
| "processProperties ((propName, propSchema) # rest) req interfaceContent deps
       typeDefinitions =
     (case processSchema propSchema typeDefinitions of
        (propType, typeDefinitions') \<Rightarrow>
          processProperties rest req
            (interfaceContent @ ''  '' @ propName @ (if propName \<in> set req then [] else ''?'')
               @ '': '' @ propType @ (if nullable propSchema then '' | null'' else [])
               @ '';'' @ newline)
            (if \<not> isBasicType propType then deps @ [propType] else deps)
            typeDefinitions')"
| "processArraySchema schema typeDefinitions =
     (case items schema of
        None \<Rightarrow> (''any[]'', typeDefinitions)
      | Some item \<Rightarrow>
          (case processSchema item typeDefinitions of
             (itemType, typeDefinitions') \<Rightarrow>
               (let nm = sanitizeTypeName (ApiSchema.name schema);
                    deps = (if \<not> isBasicType itemType then [itemType] else [])
                in (nm, typeDefinitions'\<lparr>types := types typeDefinitions' @
                     [\<lparr>TypeDefinition.name = nm, content = ''export type '' @ nm @ '' = '' @ itemType @ ''[];'',
                       dependencies = deps\<rparr>]\<rparr>))))"
| "processAllOfSchema schema typeDefinitions =
     (case allOf schema of
        None \<Rightarrow> (''any'', typeDefinitions)
      | Some components \<Rightarrow>
          (let nm = sanitizeTypeName (ApiSchema.name schema) in
           case processComponents components [] [] typeDefinitions of
             (componentTypes, deps, typeDefinitions') \<Rightarrow>
               (nm, typeDefinitions'\<lparr>types := types typeDefinitions' @
                  [\<lparr>TypeDefinition.name = nm,
                    content = ''export type '' @ nm @ '' = '' @ join '' & '' componentTypes @ '';'',
                    dependencies = deps\<rparr>]\<rparr>)))"
| "processOneOfSchema schema typeDefinitions =
     (case oneOf schema of
        None \<Rightarrow> (''any'', typeDefinitions)
      | Some components \<Rightarrow>
          (let nm = sanitizeTypeName (ApiSchema.name schema) in
           case processComponents components [] [] typeDefinitions of
             (componentTypes, deps, typeDefinitions') \<Rightarrow>
               (nm, typeDefinitions'\<lparr>types := types typeDefinitions' @
                  [\<lparr>TypeDefinition.name = nm,
                    content = ''export type '' @ nm @ '' = '' @ join '' | '' componentTypes @ '';'',
                    dependencies = deps\<rparr>]\<rparr>)))"
| "processAnyOfSchema schema typeDefinitions =
     (case anyOf schema of
        None \<Rightarrow> (''any'', typeDefinitions)
      | Some components \<Rightarrow>
          (let nm = sanitizeTypeName (ApiSchema.name schema) in
           case processComponents components [] [] typeDefinitions of
             (componentTypes, deps, typeDefinitions') \<Rightarrow>
               (nm, typeDefinitions'\<lparr>types := types typeDefinitions' @
                  [\<lparr>TypeDefinition.name = nm,
                    content = ''export type '' @ nm @ '' = '' @ join '' | '' componentTypes @ '';'',
                    dependencies = deps\<rparr>]\<rparr>)))"
| "processComponents [] componentTypes deps typeDefinitions =
     (componentTypes, deps, typeDefinitions)"
| "processComponents (component # rest) componentTypes deps typeDefinitions =
     (case processSchema component typeDefinitions of
        (componentType, typeDefinitions') \<Rightarrow>
          processComponents rest (componentTypes @ [componentType])
            (if \<not> isBasicType componentType then deps @ [componentType] else deps)
            typeDefinitions')"
  by pat_completeness auto
termination
  by (relation "measure
        (case_sum
          (case_sum
            (case_sum (\<lambda>(schema, td). 3 * size schema + 2) (\<lambda>(schema, td). 3 * size schema + 1))
            (case_sum (\<lambda>(props, rest). 3 * size_list (size_prod (\<lambda>x. 0) size) props)
                      (\<lambda>(schema, td). 3 * size schema + 1)))
          (case_sum
            (case_sum (\<lambda>(schema, td). 3 * size schema + 1) (\<lambda>(schema, td). 3 * size schema + 1))
            (case_sum (\<lambda>(schema, td). 3 * size schema + 1)
                      (\<lambda>(components, rest). 3 * size_list size components))))")
     (auto dest!: size_items size_allOf size_oneOf size_anyOf
           simp: less_Suc_eq_le less_imp_le [OF size_properties])

declare processSchema.simps [simp del]


section \<open>Endpoints\<close>

record ApiParameter =
  name :: string
  in' :: string
  required :: bool
  description :: string
  schema :: "ApiSchema option"

record RequestBody =
  required :: bool
  contentType :: string
  schema :: "ApiSchema option"

record ApiResponse =
  description :: string
  schema :: "ApiSchema option"

text \<open>\<open>responses\<close> is a record keyed by status code, given by its entries.\<close>

record ApiEndpoint =
  path :: string
  method' :: string
  operationId :: string
  summary :: string
  description :: string
  parameters :: "ApiParameter list"
  requestBody :: "RequestBody option"
  responses :: "(string \<times> ApiResponse) list"
  tags :: "string list"

record ApiPath =
  endpoints :: "ApiEndpoint list"

text \<open>
  \<open>ParsedSpec\<close>, with the fields the generator reads: \<open>paths\<close> in the order of
  \<open>Object.values\<close> and \<open>components.schemas\<close> in the order of \<open>Object.entries\<close>.
\<close>

record ParsedSpec =
  paths :: "(string \<times> ApiPath) list"
  schemas :: "(string \<times> ApiSchema) list"

subsection \<open>The text of a client class\<close>

definition quote :: string where
  "quote = [CHR 0x27]"

text \<open>\<open>p.schema ? toTsType(p.schema.type, p.schema.format) : 'any'\<close>\<close>

definition paramTsType :: "ApiParameter \<Rightarrow> string" where
  "paramTsType p =
     (case ApiParameter.schema p of
        Some sch \<Rightarrow> toTsType (Some (type sch)) (format sch)
      | None \<Rightarrow> ''any'')"

definition generateEndpointMethod :: "ApiEndpoint \<Rightarrow> string" where
  "generateEndpointMethod endpoint =
     (let methodName = operationId endpoint;
          upperMethod = toUpperCase (method' endpoint);
          queryParams = filter (\<lambda>p. in' p = ''query'') (parameters endpoint);
          pathParams = filter (\<lambda>p. in' p = ''path'') (parameters endpoint);
          headerParams = filter (\<lambda>p. in' p = ''header'') (parameters endpoint);
          methodParams0 = [];
          methodJsDoc0 = ''  /**'' @ newline @ ''   * '' @ summary endpoint @ newline
            @ (if ApiEndpoint.description endpoint \<noteq> []
               then ''   * '' @ ApiEndpoint.description endpoint @ newline else []);
          methodParams1 =
            (if pathParams \<noteq> []
             then methodParams0
               @ join '', '' (map (\<lambda>p. ApiParameter.name p @ '': '' @ paramTsType p) pathParams)
             else methodParams0);
          methodJsDoc1 =
            (if pathParams \<noteq> []
             then methodJsDoc0
               @ concat (map (\<lambda>p. ''   * @param '' @ ApiParameter.name p @ '' ''
                                   @ ApiParameter.description p @ newline) pathParams)
             else methodJsDoc0);
          methodParams2 =
            (if queryParams \<noteq> []
             then (if methodParams1 \<noteq> [] then methodParams1 @ '', '' else methodParams1)
               @ ''queryParams: { ''
               @ join ''; '' (map (\<lambda>p. ApiParameter.name p
                                  @ (if ApiParameter.required p then [] else ''?'')
                                  @ '': '' @ paramTsType p) queryParams)
               @ '' }''
             else methodParams1);
          methodJsDoc2 =
            (if queryParams \<noteq> []
             then methodJsDoc1 @ ''   * @param queryParams Query parameters'' @ newline
             else methodJsDoc1);
          methodParams3 =
            (if requestBody endpoint \<noteq> None
             then (if methodParams2 \<noteq> [] then methodParams2 @ '', '' else methodParams2)
               @ ''data: any''
             else methodParams2);
          methodJsDoc3 =
            (if requestBody endpoint \<noteq> None
             then methodJsDoc2 @ ''   * @param data Request body data'' @ newline
             else methodJsDoc2);
          methodParams4 =
            (if headerParams \<noteq> []
             then (if methodParams3 \<noteq> [] then methodParams3 @ '', '' else methodParams3)
               @ ''headers?: Record<string, string>''
             else methodParams3);
          methodJsDoc4 =
            (if headerParams \<noteq> []
             then methodJsDoc3 @ ''   * @param headers Custom headers'' @ newline
             else methodJsDoc3);
          methodParams =
            (if methodParams4 \<noteq> [] then methodParams4 @ '', '' else methodParams4)
              @ ''options?: RequestOptions'';
          methodJsDoc = methodJsDoc4 @ ''   * @param options Request options'' @ newline
            @ ''   */'' @ newline
      in methodJsDoc @ ''  async '' @ toCamelCase methodName @ ''('' @ methodParams
           @ ''): Promise<any> {'' @ newline
        @ ''    let url = this.baseUrl + '' @ quote @ path endpoint @ quote @ '';'' @ newline
        @ (if pathParams \<noteq> []
           then newline @ ''    // Replace path parameters'' @ newline
             @ concat (map (\<lambda>param. ''    url = url.replace('' @ quote @ ''{''
                             @ ApiParameter.name param @ ''}'' @ quote
                             @ '', encodeURIComponent(String('' @ ApiParameter.name param
                             @ '')));'' @ newline) pathParams)
           else [])
        @ (if queryParams \<noteq> []
           then newline @ ''    // Add query parameters'' @ newline
             @ ''    const searchParams = new URLSearchParams();'' @ newline
             @ concat (map (\<lambda>param.
                   ''    if (queryParams.'' @ ApiParameter.name param @ '' !== undefined) {''
                     @ newline
                   @ ''      searchParams.append('' @ quote @ ApiParameter.name param @ quote
                     @ '', String(queryParams.'' @ ApiParameter.name param @ ''));'' @ newline
                   @ ''    }'' @ newline) queryParams)
             @ ''    const queryString = searchParams.toString();'' @ newline
             @ ''    if (queryString) {'' @ newline
             @ ''      url += `?${queryString}`;'' @ newline
             @ ''    }'' @ newline
           else [])
        @ newline @ ''    // Prepare request options'' @ newline
        @ ''    const fetchOptions: RequestInit = {'' @ newline
        @ ''      method: '' @ quote @ upperMethod @ quote @ '','' @ newline
        @ ''      ...options,'' @ newline
        @ ''      headers: {'' @ newline
        @ ''        '' @ quote @ ''Content-Type'' @ quote @ '': '' @ quote @ ''application/json''
          @ quote @ '','' @ newline
        @ (if headerParams \<noteq> []
           then concat (map (\<lambda>param.
                   if ApiParameter.required param
                   then ''        '' @ quote @ ApiParameter.name param @ quote @ '': headers?.[''
                     @ quote @ ApiParameter.name param @ quote @ ''] || '' @ quote @ quote
                     @ '','' @ newline
                   else ''        ...(headers?.['' @ quote @ ApiParameter.name param @ quote
                     @ ''] ? { '' @ quote @ ApiParameter.name param @ quote @ '': headers[''
                     @ quote @ ApiParameter.name param @ quote @ ''] } : {}),'' @ newline)
                 headerParams)
           else [])
        @ ''        ...headers,'' @ newline
        @ ''      },'' @ newline
        @ (if requestBody endpoint \<noteq> None
           then ''      body: JSON.stringify(data),'' @ newline else [])
        @ ''    };'' @ newline @ newline
        @ ''    // Make request'' @ newline
        @ ''    const response = await fetch(url, fetchOptions);'' @ newline
        @ ''    const contentType = response.headers.get('' @ quote @ ''Content-Type'' @ quote
          @ '') || '' @ quote @ quote @ '';'' @ newline @ newline
        @ ''    // Handle response'' @ newline
        @ ''    if (!response.ok) {'' @ newline
        @ ''      throw new Error(`API error: ${response.status} ${await response.text()}`);''
          @ newline
        @ ''    }'' @ newline @ newline
        @ ''    // Parse response body'' @ newline
        @ ''    if (contentType.includes('' @ quote @ ''application/json'' @ quote @ '')) {''
          @ newline
        @ ''      return await response.json();'' @ newline
        @ ''    } else {'' @ newline
        @ ''      return await response.text();'' @ newline
        @ ''    }'' @ newline
        @ ''  }'' @ newline)"

definition generateApiClass :: "string \<Rightarrow> ApiEndpoint list \<Rightarrow> string" where
  "generateApiClass apiClassName eps =
     ''export class '' @ apiClassName @ '' {'' @ newline
     @ ''  private baseUrl: string;'' @ newline @ newline
     @ ''  constructor(baseUrl: string = '' @ quote @ quote @ '') {'' @ newline
     @ ''    this.baseUrl = baseUrl;'' @ newline
     @ ''  }'' @ newline @ newline
     @ concat (map (\<lambda>endpoint. generateEndpointMethod endpoint @ newline) eps)
     @ ''}'' @ newline"


subsection \<open>Grouping by tag\<close>

text \<open>
  \<open>endpointsByTag\<close> is an object literal used as a dictionary. Its own properties are an
  association list in insertion order. A read \<open>endpointsByTag[tag]\<close> of a key that is not
  an own property falls through to \<open>Object.prototype\<close>, whose properties are listed here:
  each of them reads as a truthy value that has no \<open>push\<close>, so the call
  \<open>endpointsByTag[tag].push(endpoint)\<close> throws a \<open>TypeError\<close>.
\<close>

datatype error = TypeError

definition objectPrototypeKeys :: "string list" where
  "objectPrototypeKeys =
     [''constructor'', ''__defineGetter__'', ''__defineSetter__'', ''hasOwnProperty'',
      ''__lookupGetter__'', ''__lookupSetter__'', ''isPrototypeOf'', ''propertyIsEnumerable'',
      ''toString'', ''valueOf'', ''__proto__'', ''toLocaleString'']"

text \<open>\<open>endpointsByTag[tag].push(endpoint)\<close> for a tag that is an own property.\<close>

fun pushTo :: "string \<Rightarrow> 'a \<Rightarrow> (string \<times> 'a list) list \<Rightarrow> (string \<times> 'a list) list" where
  "pushTo tag x [] = []"
| "pushTo tag x ((k, xs) # rest) =
     (if k = tag then (k, xs @ [x]) # rest else (k, xs) # pushTo tag x rest)"

text \<open>The body of the inner loop of \<open>groupEndpointsByTag\<close>.\<close>

definition addEndpoint ::
  "(string \<times> 'a list) list \<Rightarrow> 'a \<Rightarrow> string \<Rightarrow> error + (string \<times> 'a list) list" where
  "addEndpoint endpointsByTag endpoint tag =
     (if tag \<in> fst ` set endpointsByTag then Inr (pushTo tag endpoint endpointsByTag)
      else if tag \<in> set objectPrototypeKeys then Inl TypeError
      else Inr (pushTo tag endpoint (endpointsByTag @ [(tag, [])])))"

fun addEndpointTags ::
  "(string \<times> 'a list) list \<Rightarrow> 'a \<Rightarrow> string list \<Rightarrow> error + (string \<times> 'a list) list" where
  "addEndpointTags endpointsByTag endpoint [] = Inr endpointsByTag"
| "addEndpointTags endpointsByTag endpoint (tag # rest) =
     (case addEndpoint endpointsByTag endpoint tag of
        Inl e \<Rightarrow> Inl e
      | Inr endpointsByTag' \<Rightarrow> addEndpointTags endpointsByTag' endpoint rest)"

text \<open>\<open>endpoint.tags.length > 0 ? endpoint.tags : ['default']\<close>\<close>

definition effectiveTags :: "ApiEndpoint \<Rightarrow> string list" where
  "effectiveTags endpoint = (if tags endpoint \<noteq> [] then tags endpoint else [''default''])"

fun groupEndpoints ::
  "(string \<times> ApiEndpoint list) list \<Rightarrow> ApiEndpoint list
     \<Rightarrow> error + (string \<times> ApiEndpoint list) list" where
  "groupEndpoints endpointsByTag [] = Inr endpointsByTag"
| "groupEndpoints endpointsByTag (endpoint # rest) =
     (case addEndpointTags endpointsByTag endpoint (effectiveTags endpoint) of
        Inl e \<Rightarrow> Inl e
      | Inr endpointsByTag' \<Rightarrow> groupEndpoints endpointsByTag' rest)"

definition allEndpoints :: "ParsedSpec \<Rightarrow> ApiEndpoint list" where
  "allEndpoints parsedSpec = concat (map (\<lambda>(p, apiPath). endpoints apiPath) (paths parsedSpec))"

definition groupEndpointsByTag :: "ParsedSpec \<Rightarrow> error + (string \<times> ApiEndpoint list) list" where
  "groupEndpointsByTag parsedSpec = groupEndpoints [] (allEndpoints parsedSpec)"

subsection \<open>The order of \<open>Object.entries\<close>\<close>

text \<open>
  The own properties of an object are listed with the array indices first, in ascending
  numeric order, and the other keys after them in insertion order. An array index is a
  decimal numeral without leading zero whose value is at most \<open>2^32 - 2\<close>.
\<close>

definition parseNat :: "string \<Rightarrow> nat" where
  "parseNat k = foldl (\<lambda>n c. 10 * n + (of_char c - 48)) 0 k"

definition isArrayIndex :: "string \<Rightarrow> bool" where
  "isArrayIndex k =
     (k \<noteq> [] \<and> list_all (\<lambda>c. c \<in> set digitChars) k \<and> (k = ''0'' \<or> take 1 k \<noteq> ''0'')
      \<and> parseNat k < 4294967295)"

definition objectEntries :: "(string \<times> 'a) list \<Rightarrow> (string \<times> 'a) list" where
  "objectEntries obj =
     sort_key (\<lambda>(k, v). parseNat k) (filter (\<lambda>(k, v). isArrayIndex k) obj)
     @ filter (\<lambda>(k, v). \<not> isArrayIndex k) obj"

section \<open>The generator\<close>

text \<open>The loop over \<open>Object.entries(parsedSpec.components.schemas)\<close>.\<close>

fun processSchemas :: "(string \<times> ApiSchema) list \<Rightarrow> TypeDefinitions \<Rightarrow> TypeDefinitions" where
  "processSchemas [] typeDefinitions = typeDefinitions"
| "processSchemas ((nm, sch) # rest) typeDefinitions =
     processSchemas rest (snd (processSchema sch typeDefinitions))"

text \<open>The loop over \<open>Object.entries(endpointsByTag)\<close>.\<close>

fun pushApiClasses :: "(string \<times> ApiEndpoint list) list \<Rightarrow> TypeDefinitions \<Rightarrow> TypeDefinitions" where
  "pushApiClasses [] typeDefinitions = typeDefinitions"
| "pushApiClasses ((tag, eps) # rest) typeDefinitions =
     (let apiClassName = toPascalCase tag @ ''Api'';
          apiClassContent = generateApiClass apiClassName eps
      in pushApiClasses rest
           (typeDefinitions\<lparr>apiClasses := apiClasses typeDefinitions @
              [\<lparr>TypeDefinition.name = apiClassName, content = apiClassContent,
                dependencies = []\<rparr>]\<rparr>))"

definition generateTypeDefinitions :: "ParsedSpec \<Rightarrow> error + TypeDefinitions" where
  "generateTypeDefinitions parsedSpec =
     (let typeDefinitions = processSchemas (schemas parsedSpec) emptyTypeDefinitions in
      case groupEndpointsByTag parsedSpec of
        Inl e \<Rightarrow> Inl e
      | Inr endpointsByTag \<Rightarrow> Inr (pushApiClasses (objectEntries endpointsByTag) typeDefinitions))"


section \<open>Example inputs\<close>

definition scalarSchema :: "string \<Rightarrow> string \<Rightarrow> string option \<Rightarrow> ApiSchema" where
  "scalarSchema nm t fmt = ApiSchema nm t fmt None False [] [] None None None None None"

definition idParameter :: ApiParameter where
  "idParameter =
     \<lparr>ApiParameter.name = ''id'', in' = ''path'', required = True, description = ''Pet id'',
      schema = Some (scalarSchema ''id'' ''integer'' (Some ''int64''))\<rparr>"

definition petBody :: RequestBody where
  "petBody =
     \<lparr>RequestBody.required = True, contentType = ''application/json'',
      schema = Some (ApiSchema ''updatePetRequest'' ''object'' None None False [] [] None None
                      None None (Some ''Pet''))\<rparr>"

definition updatePet :: ApiEndpoint where
  "updatePet =
     \<lparr>path = ''/pets/{id}'', method' = ''put'', operationId = ''updatePet'',
      summary = ''Update a pet'', description = [], parameters = [idParameter],
      requestBody = Some petBody,
      responses = [(''200'', \<lparr>ApiResponse.description = ''OK'',
                             schema = Some (scalarSchema ''updatePetResponse200'' ''object'' None)\<rparr>)],
      tags = [''A'', ''B'']\<rparr>"

definition listPets :: ApiEndpoint where
  "listPets =
     \<lparr>path = ''/pets'', method' = ''get'', operationId = ''listPets'',
      summary = ''List pets'', description = [], parameters = [],
      requestBody = None, responses = [], tags = []\<rparr>"

definition petSchema :: ApiSchema where
  "petSchema =
     ApiSchema ''Pet'' ''object'' None None False
       [(''id'', scalarSchema ''PetId'' ''integer'' (Some ''int64'')),
        (''name'', scalarSchema ''PetName'' ''string'' None)]
       [''id''] None None None None None"

definition petSpec :: ParsedSpec where
  "petSpec =
     \<lparr>paths = [(''/pets/{id}'', \<lparr>endpoints = [updatePet]\<rparr>), (''/pets'', \<lparr>endpoints = [listPets]\<rparr>)],
      schemas = [(''Pet'', petSchema)]\<rparr>"

section \<open>Properties of the scalar table\<close>

lemma toLowerCase_Nil [simp]: "toLowerCase [] = []"
  by (simp add: toLowerCase_def)

text \<open>
  C7 (scalar mapping table), as the code has it. The type is compared after
  \<open>toLowerCase\<close>, the format as it is written. \<open>integer\<close> and \<open>number\<close> give \<open>number\<close>,
  or \<open>bigint\<close> when the format is \<open>int64\<close>; \<open>string\<close> gives \<open>string\<close>, or \<open>Date\<close> for the
  formats \<open>date\<close> and \<open>date-time\<close>, or \<open>Blob\<close> for the format \<open>binary\<close>; \<open>boolean\<close> gives
  \<open>boolean\<close>; \<open>array\<close> gives \<open>any[]\<close>; \<open>object\<close> and every other non-empty type give
  \<open>Record<string, any>\<close>. A type that is absent or the empty string gives \<open>any\<close>, not the
  key-value mapping.
\<close>

theorem toTsType_table:
  "(toLowerCase t = ''integer'' \<or> toLowerCase t = ''number'' \<longrightarrow>
      toTsType (Some t) fmt = (if fmt = Some ''int64'' then ''bigint'' else ''number''))
   \<and> (toLowerCase t = ''string'' \<longrightarrow>
      toTsType (Some t) fmt =
        (if fmt = Some ''date'' \<or> fmt = Some ''date-time'' then ''Date''
         else if fmt = Some ''binary'' then ''Blob'' else ''string''))
   \<and> (toLowerCase t = ''boolean'' \<longrightarrow> toTsType (Some t) fmt = ''boolean'')
   \<and> (toLowerCase t = ''array'' \<longrightarrow> toTsType (Some t) fmt = ''any[]'')
   \<and> (t \<noteq> [] \<and> toLowerCase t \<notin> {''integer'', ''number'', ''string'', ''boolean'', ''array''} \<longrightarrow>
      toTsType (Some t) fmt = ''Record<string, any>'')
   \<and> toTsType (Some []) fmt = ''any''
   \<and> toTsType None fmt = ''any''"
proof -
  have "toTsType (Some t) fmt = ''Record<string, any>''"
    if "t \<noteq> []" "toLowerCase t \<notin> {''integer'', ''number'', ''string'', ''boolean'', ''array''}"
    using that by (simp add: toTsType_def Let_def)
  moreover have "toTsType (Some t) fmt = (if fmt = Some ''int64'' then ''bigint'' else ''number'')"
    if "toLowerCase t = ''integer'' \<or> toLowerCase t = ''number''"
  proof -
    from that have "t \<noteq> []" by auto
    with that show ?thesis by (auto simp: toTsType_def Let_def)
  qed
  moreover have "toTsType (Some t) fmt =
        (if fmt = Some ''date'' \<or> fmt = Some ''date-time'' then ''Date''
         else if fmt = Some ''binary'' then ''Blob'' else ''string'')"
    if "toLowerCase t = ''string''"
  proof -
    from that have "t \<noteq> []" by auto
    with that show ?thesis by (simp add: toTsType_def Let_def)
  qed
  moreover have "toTsType (Some t) fmt = ''boolean''" if "toLowerCase t = ''boolean''"
  proof -
    from that have "t \<noteq> []" by auto
    with that show ?thesis by (simp add: toTsType_def Let_def)
  qed
  moreover have "toTsType (Some t) fmt = ''any[]''" if "toLowerCase t = ''array''"
  proof -
    from that have "t \<noteq> []" by auto
    with that show ?thesis by (simp add: toTsType_def Let_def)
  qed
  moreover have "toTsType (Some []) fmt = ''any''" "toTsType None fmt = ''any''"
    by (simp_all add: toTsType_def)
  ultimately show ?thesis
    by blast
qed

text \<open>The table at one input per row; the type \<open>Integer\<close> shows the case folding.\<close>

theorem toTsType_table_witness:
  "toLowerCase ''Integer'' = ''integer''
   \<and> toTsType (Some ''Integer'') (Some ''int64'') = ''bigint''
   \<and> toTsType (Some ''number'') None = ''number''
   \<and> toTsType (Some ''string'') (Some ''date-time'') = ''Date''
   \<and> toTsType (Some ''string'') (Some ''binary'') = ''Blob''
   \<and> toTsType (Some ''boolean'') None = ''boolean''
   \<and> toTsType (Some ''array'') None = ''any[]''
   \<and> toTsType (Some ''object'') None = ''Record<string, any>''
   \<and> toTsType (Some ''file'') None = ''Record<string, any>''"
proof -
  have l: "toLowerCase ''Integer'' = ''integer''" "toLowerCase ''number'' = ''number''"
    "toLowerCase ''string'' = ''string''" "toLowerCase ''boolean'' = ''boolean''"
    "toLowerCase ''array'' = ''array''" "toLowerCase ''object'' = ''object''"
    "toLowerCase ''file'' = ''file''"
    by code_simp+
  show ?thesis
    using toTsType_table [of "''Integer''" "Some ''int64''"]
      toTsType_table [of "''number''" None]
      toTsType_table [of "''string''" "Some ''date-time''"]
      toTsType_table [of "''string''" "Some ''binary''"]
      toTsType_table [of "''boolean''" None]
      toTsType_table [of "''array''" None]
      toTsType_table [of "''object''" None]
      toTsType_table [of "''file''" None]
    by (simp add: l)
qed

text \<open>
  C7 as stated fails for an unspecified type: \<open>toTsType\<close> without a type, and the scalar
  fallback of the resolver on a node whose type is the empty string, give \<open>any\<close>.
\<close>

theorem toTsType_unspecified_counterexample:
  "toTsType None None = ''any''
   \<and> toTsType None None \<noteq> ''Record<string, any>''
   \<and> processSchema (scalarSchema ''Untyped'' [] None) emptyTypeDefinitions
       = (''any'', emptyTypeDefinitions)"
  by code_simp


section \<open>What a resolution does to the accumulator\<close>

text \<open>
  A resolution changes the accumulator only by appending declarations to \<open>interfaces\<close>,
  \<open>types\<close> and \<open>enums\<close>: a relation between accumulators that is reflexive and transitive
  and holds across each such step holds across every function of the resolver.
\<close>

lemma resolver_invariant:
  assumes refl: "\<And>td. R td td"
    and trans: "\<And>a b c. R a b \<Longrightarrow> R b c \<Longrightarrow> R a c"
    and i: "\<And>td d. R td (td\<lparr>interfaces := interfaces td @ [d]\<rparr>)"
    and t: "\<And>td d. R td (td\<lparr>types := types td @ [d]\<rparr>)"
    and e: "\<And>td d. R td (td\<lparr>enums := enums td @ [d]\<rparr>)"
  shows "R td (snd (processSchema s td))"
    and "R td (snd (processObjectSchema s td))"
    and "R td (snd (snd (processProperties ps req ic deps td)))"
    and "R td (snd (processArraySchema s td))"
    and "R td (snd (processAllOfSchema s td))"
    and "R td (snd (processOneOfSchema s td))"
    and "R td (snd (processAnyOfSchema s td))"
    and "R td (snd (snd (processComponents cs cts deps' td)))"
proof (induction s td and s td and ps req ic deps td and s td and s td and s td and s td
         and cs cts deps' td
       rule: processSchema_processObjectSchema_processProperties_processArraySchema_processAllOfSchema_processOneOfSchema_processAnyOfSchema_processComponents.induct)
  case (1 schema td)
  have en: "R td (snd (processEnumSchema schema td))"
    by (simp add: processEnumSchema_def Let_def e)
  show ?case
    using 1 en refl
    by (simp add: processSchema.simps split: option.splits)
next
  case (2 schema td)
  let ?r = "processProperties (properties schema) (ApiSchema.required schema)
              (''export interface '' @ sanitizeTypeName (ApiSchema.name schema) @ '' {'' @ newline)
              [] td"
  have a: "R td (snd (snd ?r))"
    by (rule 2) simp
  have "snd (processObjectSchema schema td)
      = (snd (snd ?r))\<lparr>interfaces := interfaces (snd (snd ?r)) @
          [\<lparr>TypeDefinition.name = sanitizeTypeName (ApiSchema.name schema),
            content = fst ?r @ ''}'', dependencies = fst (snd ?r)\<rparr>]\<rparr>"
    by (simp add: Let_def case_prod_beta)
  then show ?case
    using trans [OF a i] by simp
next
  case (3 req interfaceContent deps td)
  show ?case by (simp add: refl)
next
  case (4 propName propSchema rest req interfaceContent deps td)
  let ?r = "processSchema propSchema td"
  have a: "R td (snd ?r)"
    by (rule 4)
  have "R (snd ?r)
     (snd (snd (processProperties rest req
       (interfaceContent @ ''  '' @ propName @ (if propName \<in> set req then [] else ''?'')
          @ '': '' @ fst ?r @ (if nullable propSchema then '' | null'' else []) @ '';'' @ newline)
       (if \<not> isBasicType (fst ?r) then deps @ [fst ?r] else deps) (snd ?r))))"
    by (rule 4) simp
  then have "R (snd ?r)
     (snd (snd (processProperties ((propName, propSchema) # rest) req interfaceContent deps td)))"
    by (simp add: case_prod_beta)
  with a show ?case
    by (rule trans)
next
  case (5 schema td)
  show ?case
  proof (cases "items schema")
    case None
    then show ?thesis by (simp add: refl)
  next
    case (Some item)
    let ?r = "processSchema item td"
    have a: "R td (snd ?r)"
      using Some by (rule 5)
    have "snd (processArraySchema schema td)
        = (snd ?r)\<lparr>types := types (snd ?r) @
            [\<lparr>TypeDefinition.name = sanitizeTypeName (ApiSchema.name schema),
              content = ''export type '' @ sanitizeTypeName (ApiSchema.name schema) @ '' = ''
                @ fst ?r @ ''[];'',
              dependencies = (if \<not> isBasicType (fst ?r) then [fst ?r] else [])\<rparr>]\<rparr>"
      using Some by (simp add: Let_def case_prod_beta)
    then show ?thesis
      using trans [OF a t] by simp
  qed
next
  case (6 schema td)
  show ?case
  proof (cases "allOf schema")
    case None
    then show ?thesis by (simp add: refl)
  next
    case (Some components)
    let ?r = "processComponents components [] [] td"
    have a: "R td (snd (snd ?r))"
      using Some by (rule 6) simp
    have "snd (processAllOfSchema schema td)
        = (snd (snd ?r))\<lparr>types := types (snd (snd ?r)) @
            [\<lparr>TypeDefinition.name = sanitizeTypeName (ApiSchema.name schema),
              content = ''export type '' @ sanitizeTypeName (ApiSchema.name schema) @ '' = ''
                @ join '' & '' (fst ?r) @ '';'',
              dependencies = fst (snd ?r)\<rparr>]\<rparr>"
      using Some by (simp add: Let_def case_prod_beta)
    then show ?thesis
      using trans [OF a t] by simp
  qed
next
  case (7 schema td)
  show ?case
  proof (cases "oneOf schema")
    case None
    then show ?thesis by (simp add: refl)
  next
    case (Some components)
    let ?r = "processComponents components [] [] td"
    have a: "R td (snd (snd ?r))"
      using Some by (rule 7) simp
    have "snd (processOneOfSchema schema td)
        = (snd (snd ?r))\<lparr>types := types (snd (snd ?r)) @
            [\<lparr>TypeDefinition.name = sanitizeTypeName (ApiSchema.name schema),
              content = ''export type '' @ sanitizeTypeName (ApiSchema.name schema) @ '' = ''
                @ join '' | '' (fst ?r) @ '';'',
              dependencies = fst (snd ?r)\<rparr>]\<rparr>"
      using Some by (simp add: Let_def case_prod_beta)
    then show ?thesis
      using trans [OF a t] by simp
  qed
next
  case (8 schema td)
  show ?case
  proof (cases "anyOf schema")
    case None
    then show ?thesis by (simp add: refl)
  next
    case (Some components)
    let ?r = "processComponents components [] [] td"
    have a: "R td (snd (snd ?r))"
      using Some by (rule 8) simp
    have "snd (processAnyOfSchema schema td)
        = (snd (snd ?r))\<lparr>types := types (snd (snd ?r)) @
            [\<lparr>TypeDefinition.name = sanitizeTypeName (ApiSchema.name schema),
              content = ''export type '' @ sanitizeTypeName (ApiSchema.name schema) @ '' = ''
                @ join '' | '' (fst ?r) @ '';'',
              dependencies = fst (snd ?r)\<rparr>]\<rparr>"
      using Some by (simp add: Let_def case_prod_beta)
    then show ?thesis
      using trans [OF a t] by simp
  qed
next
  case (9 componentTypes deps td)
  show ?case by (simp add: refl)
next
  case (10 component rest componentTypes deps td)
  let ?r = "processSchema component td"
  have a: "R td (snd ?r)"
    by (rule 10)
  have "R (snd ?r)
     (snd (snd (processComponents rest (componentTypes @ [fst ?r])
       (if \<not> isBasicType (fst ?r) then deps @ [fst ?r] else deps) (snd ?r))))"
    by (rule 10) simp
  then have "R (snd ?r)
     (snd (snd (processComponents (component # rest) componentTypes deps td)))"
    by (simp add: case_prod_beta)
  with a show ?case
    by (rule trans)
qed

lemma apiClasses_processSchema:
  "apiClasses (snd (processSchema s td)) = apiClasses td"
  by (rule resolver_invariant(1) [where R = "\<lambda>a b. apiClasses b = apiClasses a"]) simp_all

lemma processSchemas_apiClasses:
  "apiClasses (processSchemas xs td) = apiClasses td"
  by (induction xs td rule: processSchemas.induct) (simp_all add: apiClasses_processSchema)

section \<open>Properties of the client declarations\<close>

text \<open>The declaration that \<open>generateTypeDefinitions\<close> pushes for one group.\<close>

definition apiClassOf :: "string \<times> ApiEndpoint list \<Rightarrow> TypeDefinition" where
  "apiClassOf g =
     \<lparr>TypeDefinition.name = toPascalCase (fst g) @ ''Api'',
      content = generateApiClass (toPascalCase (fst g) @ ''Api'') (snd g),
      dependencies = []\<rparr>"

lemma pushApiClasses_apiClasses:
  "apiClasses (pushApiClasses gs td) = apiClasses td @ map apiClassOf gs"
  by (induction gs td rule: pushApiClasses.induct) (simp_all add: apiClassOf_def Let_def)

lemma pushApiClasses_others:
  "interfaces (pushApiClasses gs td) = interfaces td"
  "types (pushApiClasses gs td) = types td"
  "enums (pushApiClasses gs td) = enums td"
  by (induction gs td rule: pushApiClasses.induct) (simp_all add: Let_def)

lemma generateTypeDefinitions_apiClasses:
  assumes "generateTypeDefinitions parsedSpec = Inr td"
  obtains groups where "groupEndpointsByTag parsedSpec = Inr groups"
    and "apiClasses td = map apiClassOf (objectEntries groups)"
proof -
  from assms obtain groups where g: "groupEndpointsByTag parsedSpec = Inr groups"
    and td: "td = pushApiClasses (objectEntries groups)
                    (processSchemas (schemas parsedSpec) emptyTypeDefinitions)"
    by (auto simp: generateTypeDefinitions_def Let_def split: sum.splits)
  have "apiClasses td = map apiClassOf (objectEntries groups)"
    by (simp add: td pushApiClasses_apiClasses processSchemas_apiClasses
          emptyTypeDefinitions_def)
  with g show thesis by (rule that)
qed

text \<open>
  C10: every client declaration that \<open>generateTypeDefinitions\<close> returns has an empty
  list of dependencies, whatever the parsed specification and the tag.
\<close>

theorem apiClasses_no_dependencies:
  assumes "generateTypeDefinitions parsedSpec = Inr td"
  shows "\<forall>d \<in> set (apiClasses td). dependencies d = []"
proof -
  from assms obtain groups where "apiClasses td = map apiClassOf (objectEntries groups)"
    by (rule generateTypeDefinitions_apiClasses)
  then show ?thesis
    by (auto simp: apiClassOf_def)
qed

text \<open>
  The example specification has a method with a typed path parameter, a request body and a
  response; its three client declarations have no dependencies.
\<close>

theorem apiClasses_no_dependencies_witness:
  "\<exists>td. generateTypeDefinitions petSpec = Inr td
     \<and> map TypeDefinition.name (apiClasses td) = [''AApi'', ''BApi'', ''DefaultApi'']
     \<and> (\<forall>d \<in> set (apiClasses td). dependencies d = [])"
proof -
  have "case generateTypeDefinitions petSpec of
          Inl e \<Rightarrow> False
        | Inr td \<Rightarrow> map TypeDefinition.name (apiClasses td) = [''AApi'', ''BApi'', ''DefaultApi'']"
    by code_simp
  then obtain td where td: "generateTypeDefinitions petSpec = Inr td"
    and names: "map TypeDefinition.name (apiClasses td) = [''AApi'', ''BApi'', ''DefaultApi'']"
    by (cases "generateTypeDefinitions petSpec") auto
  show ?thesis
    using td names apiClasses_no_dependencies [OF td]
    by (intro exI [of _ td] conjI)
qed


section \<open>Properties of the resolution order\<close>

text \<open>The names that \<open>findExistingType\<close> compares with, in the order of its loop.\<close>

definition declaredNames :: "TypeDefinitions \<Rightarrow> string list" where
  "declaredNames td = map TypeDefinition.name (interfaces td @ types td @ enums td)"






lemma truthy_eq: "truthy x = (if x \<noteq> None \<and> x \<noteq> Some [] then x else None)"
  by (cases x) auto








section \<open>Properties of enumerations\<close>







section \<open>Properties of compositions\<close>









section \<open>Properties of the generator\<close>

lemma generateTypeDefinitions_declarations:
  assumes "generateTypeDefinitions parsedSpec = Inr td"
  shows "interfaces td = interfaces (processSchemas (schemas parsedSpec) emptyTypeDefinitions)"
    and "types td = types (processSchemas (schemas parsedSpec) emptyTypeDefinitions)"
    and "enums td = enums (processSchemas (schemas parsedSpec) emptyTypeDefinitions)"
  using assms
  by (auto simp: generateTypeDefinitions_def Let_def pushApiClasses_others split: sum.splits)

text \<open>
  C9, with its last clause as the code has it. The declarations in \<open>interfaces\<close>, \<open>types\<close>
  and \<open>enums\<close> are those that resolving the top-level schemas in their order leaves in an
  empty accumulator. The schemas under the request body and the responses of an endpoint
  are never resolved: two parsed specifications with the same top-level schemas have the
  same declarations, whatever their endpoints carry. So a declaration has the name of a
  request or response schema only if resolving the top-level schemas gives it that name.
\<close>

theorem declarations_from_schemas_only:
  assumes "generateTypeDefinitions parsedSpec = Inr td"
  shows "interfaces td = interfaces (processSchemas (schemas parsedSpec) emptyTypeDefinitions)
    \<and> types td = types (processSchemas (schemas parsedSpec) emptyTypeDefinitions)
    \<and> enums td = enums (processSchemas (schemas parsedSpec) emptyTypeDefinitions)
    \<and> (\<forall>parsedSpec' td'.
          schemas parsedSpec' = schemas parsedSpec \<and> generateTypeDefinitions parsedSpec' = Inr td'
          \<longrightarrow> interfaces td' = interfaces td \<and> types td' = types td \<and> enums td' = enums td)"
proof -
  have "interfaces td' = interfaces td \<and> types td' = types td \<and> enums td' = enums td"
    if "schemas parsedSpec' = schemas parsedSpec" "generateTypeDefinitions parsedSpec' = Inr td'"
    for parsedSpec' td'
    using generateTypeDefinitions_declarations [OF that(2)]
      generateTypeDefinitions_declarations [OF assms] that(1)
    by simp
  with generateTypeDefinitions_declarations [OF assms] show ?thesis
    by blast
qed

text \<open>
  In the example the endpoint \<open>updatePet\<close> has a request body named \<open>updatePetRequest\<close> and
  an object response named \<open>updatePetResponse200\<close>; the only declaration is \<open>Pet\<close>.
\<close>

theorem declarations_from_schemas_only_witness:
  "\<exists>td. generateTypeDefinitions petSpec = Inr td
     \<and> declaredNames td = [''Pet'']
     \<and> declaredNames td = declaredNames (processSchemas (schemas petSpec) emptyTypeDefinitions)"
proof -
  have "case generateTypeDefinitions petSpec of
          Inl e \<Rightarrow> False
        | Inr td \<Rightarrow> declaredNames td = [''Pet'']"
    by code_simp
  then obtain td where td: "generateTypeDefinitions petSpec = Inr td"
    and names: "declaredNames td = [''Pet'']"
    by (cases "generateTypeDefinitions petSpec") auto
  from declarations_from_schemas_only [OF td]
  have "declaredNames td = declaredNames (processSchemas (schemas petSpec) emptyTypeDefinitions)"
    by (simp add: declaredNames_def)
  with td names show ?thesis
    by (intro exI [of _ td] conjI)
qed

text \<open>A top-level schema with the name that the request body of \<open>updatePet\<close> has.\<close>

definition requestNamedSpec :: ParsedSpec where
  "requestNamedSpec =
     \<lparr>paths = [(''/pets/{id}'', \<lparr>endpoints = [updatePet]\<rparr>)],
      schemas = [(''updatePetRequest'',
                  ApiSchema ''updatePetRequest'' ''object'' None None False
                    [(''name'', scalarSchema ''updatePetRequestName'' ''string'' None)] [] None None
                    None None None)]\<rparr>"

text \<open>
  C9 as stated has no declaration under a synthesized name; here one is emitted, from the
  top-level schema of that name.
\<close>

theorem synthesized_name_counterexample:
  "operationId updatePet @ ''Request'' = ''updatePetRequest''
   \<and> map_option (\<lambda>b. map_option ApiSchema.name (RequestBody.schema b)) (requestBody updatePet)
       = Some (Some ''updatePetRequest'')
   \<and> (case generateTypeDefinitions requestNamedSpec of
         Inl e \<Rightarrow> False
       | Inr td \<Rightarrow> map TypeDefinition.name (interfaces td) = [''updatePetRequest''])"
  by code_simp


section \<open>Resolving under a name that sanitization changes\<close>

definition userSchema :: ApiSchema where
  "userSchema =
     ApiSchema ''user'' ''object'' None None False
       [(''name'', scalarSchema ''userName'' ''string'' None)] [] None None None None None"

definition capitalUserSchema :: ApiSchema where
  "capitalUserSchema =
     ApiSchema ''User'' ''object'' None None False
       [(''id'', scalarSchema ''UserId'' ''integer'' None)] [] None None None None None"

definition twoUsersSpec :: ParsedSpec where
  "twoUsersSpec = \<lparr>paths = [], schemas = [(''User'', capitalUserSchema), (''user'', userSchema)]\<rparr>"

definition statusEnum :: ApiSchema where
  "statusEnum =
     ApiSchema ''Status'' ''string'' None (Some [JStr ''on'', JStr ''off'']) False [] [] None None
       None None None"

definition statusObject :: ApiSchema where
  "statusObject =
     ApiSchema ''status'' ''object'' None None False
       [(''code'', scalarSchema ''statusCode'' ''integer'' None)] [] None None None None None"

text \<open>
  C2 at the node \<open>user\<close>: the declaration is stored under the sanitized name \<open>User\<close>, the
  lookup of \<open>findExistingType\<close> compares with the name \<open>user\<close> and finds nothing, and the
  second resolution of the same node appends a second declaration \<open>User\<close>.
\<close>

theorem resolving_twice_appends_twice:
  "fst (processSchema userSchema emptyTypeDefinitions) = ''User''
   \<and> declaredNames (snd (processSchema userSchema emptyTypeDefinitions)) = [''User'']
   \<and> findExistingType (ApiSchema.name userSchema)
         (snd (processSchema userSchema emptyTypeDefinitions)) = None
   \<and> fst (processSchema userSchema (snd (processSchema userSchema emptyTypeDefinitions))) = ''User''
   \<and> declaredNames (snd (processSchema userSchema
         (snd (processSchema userSchema emptyTypeDefinitions)))) = [''User'', ''User'']"
  by code_simp

text \<open>
  C3 at a specification with the top-level schemas \<open>User\<close> and \<open>user\<close>: the accumulator
  ends with two declarations named \<open>User\<close>.
\<close>

theorem two_declarations_share_a_name:
  "(case generateTypeDefinitions twoUsersSpec of
      Inl e \<Rightarrow> False
    | Inr td \<Rightarrow>
        map TypeDefinition.name (interfaces td) = [''User'', ''User'']
        \<and> map content (interfaces td)
            = [''export interface User {'' @ newline @ ''  id?: number;'' @ newline @ ''}'',
               ''export interface User {'' @ newline @ ''  name?: string;'' @ newline @ ''}'']
        \<and> types td = [] \<and> enums td = [])"
  by code_simp

text \<open>
  C4 at an enum named \<open>Status\<close> and an object named \<open>status\<close>: resolved in this order,
  both are declared under \<open>Status\<close>; in the other order the first one wins.
\<close>

theorem second_shape_is_declared_too:
  "sanitizeTypeName (ApiSchema.name statusEnum) = ''Status''
   \<and> sanitizeTypeName (ApiSchema.name statusObject) = ''Status''
   \<and> fst (processSchema statusObject (snd (processSchema statusEnum emptyTypeDefinitions)))
       = ''Status''
   \<and> map TypeDefinition.name
         (enums (snd (processSchema statusObject
            (snd (processSchema statusEnum emptyTypeDefinitions))))) = [''Status'']
   \<and> map TypeDefinition.name
         (interfaces (snd (processSchema statusObject
            (snd (processSchema statusEnum emptyTypeDefinitions))))) = [''Status'']
   \<and> processSchema statusEnum (snd (processSchema statusObject emptyTypeDefinitions))
       = (''Status'', snd (processSchema statusObject emptyTypeDefinitions))"
  by code_simp

section \<open>Tags that are properties of \<open>Object.prototype\<close>\<close>

text \<open>The endpoint \<open>listPets\<close> with the one tag \<open>constructor\<close>.\<close>

definition constructorSpec :: ParsedSpec where
  "constructorSpec =
     \<lparr>paths = [(''/pets'', \<lparr>endpoints = [listPets\<lparr>tags := [''constructor'']\<rparr>]\<rparr>)],
      schemas = []\<rparr>"

text \<open>
  C8 at the tag \<open>constructor\<close>: \<open>endpointsByTag['constructor']\<close> reads the inherited
  constructor, no array is created, and the call of \<open>push\<close> throws; no client declaration
  is produced.
\<close>

theorem constructor_tag_throws:
  "groupEndpointsByTag constructorSpec = Inl TypeError
   \<and> generateTypeDefinitions constructorSpec = Inl TypeError"
  by code_simp

end
